theory Spec2Isabelle
  imports Main "HOL-Library.Word"
begin

section \<open>Python values\<close>

text \<open>
  The supervisor passes JSON-like Python values around: the shared \<open>context\<close>,
  the bodies that agents reply with, the entries of \<open>tool_outputs\<close>.
  A dictionary is an association list in insertion order, read with \<open>map_of\<close>.
  A Python float is its IEEE 754 double-precision bit pattern; what \<open>str\<close>
  and the format specifications print for one is a parameter of the library
  record below.
\<close>

type_synonym pyfloat = "64 word"

datatype pyval =
    PNone
  | PBool bool
  | PInt int
  | PFloat pyfloat
  | PStr string
  | PList "pyval list"
  | PDict "(string \<times> pyval) list"

type_synonym pydict = "(string \<times> pyval) list"

text \<open>Exceptions, by class. \<open>External\<close> is an exception raised inside a library
  (the HTTP client, the JSON decoder, the model validator, the LLM client).\<close>

datatype exn =
    AttributeError
  | TypeError
  | KeyError
  | ValueError
  | IndexError
  | External string

text \<open>
  What the Python runtime and the standard library do, taken as parameters:
  \<open>repr_float\<close>, \<open>repr_items\<close>, \<open>repr_elems\<close> render a float, the items of a
  dictionary and the elements of a list as \<open>str()\<close> does between the brackets;
  \<open>fixed2_float\<close> and \<open>percent1_float\<close> are the format specifications
  \<open>.2f\<close> and \<open>.1%\<close> on a float, \<open>fixed2_int\<close> and \<open>percent1_int\<close> the same
  on an integer, which is converted to a float first and may be too large for
  one; \<open>json_dumps\<close> is \<open>json.dumps(_, indent=2)\<close>; \<open>exc_str\<close> is \<open>str()\<close> of an
  exception; \<open>str_strip\<close> and \<open>str_upper\<close> are the string methods.
\<close>

record pylib =
  repr_float :: "pyfloat \<Rightarrow> string"
  repr_items :: "pydict \<Rightarrow> string"
  repr_elems :: "pyval list \<Rightarrow> string"
  fixed2_float :: "pyfloat \<Rightarrow> string"
  fixed2_int :: "int \<Rightarrow> exn + string"
  percent1_float :: "pyfloat \<Rightarrow> string"
  percent1_int :: "int \<Rightarrow> exn + string"
  json_dumps :: "pyval \<Rightarrow> string"
  exc_str :: "exn \<Rightarrow> string"
  str_strip :: "string \<Rightarrow> string"
  str_upper :: "string \<Rightarrow> string"

definition dict_get :: "pydict \<Rightarrow> string \<Rightarrow> pyval \<Rightarrow> pyval" where
  "dict_get d k dflt = (case map_of d k of None \<Rightarrow> dflt | Some v \<Rightarrow> v)"

definition dict_has :: "pydict \<Rightarrow> string \<Rightarrow> bool" where
  "dict_has d k = (map_of d k \<noteq> None)"

fun py_truthy :: "pyval \<Rightarrow> bool" where
  "py_truthy PNone = False"
| "py_truthy (PBool b) = b"
| "py_truthy (PInt i) = (i \<noteq> 0)"
| "py_truthy (PFloat f) = (f \<noteq> 0 \<and> f \<noteq> 0x8000000000000000)"
| "py_truthy (PStr s) = (s \<noteq> [])"
| "py_truthy (PList xs) = (xs \<noteq> [])"
| "py_truthy (PDict d) = (d \<noteq> [])"

fun digit_char :: "nat \<Rightarrow> char" where
  "digit_char n = char_of (48 + n)"

fun str_of_nat :: "nat \<Rightarrow> string" where
  "str_of_nat n = (if n < 10 then [digit_char n]
                   else str_of_nat (n div 10) @ [digit_char (n mod 10)])"

definition str_of_int :: "int \<Rightarrow> string" where
  "str_of_int i = (if i < 0 then CHR ''-'' # str_of_nat (nat (- i)) else str_of_nat (nat i))"

text \<open>\<open>str(v)\<close>, as an f-string interpolates it. An integer is written in full:
  the interpreter's limit on the digits of an integer conversion is left out.\<close>

fun py_str :: "pylib \<Rightarrow> pyval \<Rightarrow> string" where
  "py_str L PNone = ''None''"
| "py_str L (PBool b) = (if b then ''True'' else ''False'')"
| "py_str L (PInt i) = str_of_int i"
| "py_str L (PFloat f) = repr_float L f"
| "py_str L (PStr s) = s"
| "py_str L (PList xs) = ''['' @ repr_elems L xs @ '']''"
| "py_str L (PDict d) = ''{'' @ repr_items L d @ ''}''"

text \<open>\<open>sep.join(parts)\<close> on a list of strings.\<close>

fun str_join :: "string \<Rightarrow> string list \<Rightarrow> string" where
  "str_join sep [] = []"
| "str_join sep [x] = x"
| "str_join sep (x # y # ys) = x @ sep @ str_join sep (y # ys)"

declare str_of_nat.simps [simp del]

section \<open>The language-model collaborator\<close>

text \<open>
  \<open>combine.py\<close> and \<open>history.py\<close> reach the model through the OpenAI client.
  The environment says whether the client library was imported, what
  \<open>OPENROUTER_API_KEY\<close> and \<open>OPENROUTER_MODEL\<close> hold, whether constructing the
  client raises, and what a chat completion returns: an exception, or the
  \<open>message.content\<close> of each choice (\<open>None\<close> when the content is missing).
\<close>

record llm_env =
  openai_available :: bool
  api_key :: "string option"
  model_env :: "string option"
  client_init :: "string \<Rightarrow> exn option"
  chat_completion :: "string \<Rightarrow> string \<Rightarrow> string \<Rightarrow> exn + string option list"

definition OPENROUTER_MODEL :: "llm_env \<Rightarrow> string" where
  "OPENROUTER_MODEL E =
     (case model_env E of None \<Rightarrow> ''google/gemini-2.5-flash-lite'' | Some m \<Rightarrow> m)"

text \<open>The guard \<open>OpenAI is None or not api_key\<close>.\<close>

definition llm_unconfigured :: "llm_env \<Rightarrow> bool" where
  "llm_unconfigured E =
     (\<not> openai_available E \<or> (case api_key E of None \<Rightarrow> True | Some k \<Rightarrow> k = []))"

text \<open>
  The tail shared by both callers: create the completion, take the first
  choice's content stripped, and run the fallback when there is no choice or
  anything raises (a missing content raises on \<open>.strip()\<close>).
\<close>

definition llm_or_fallback ::
  "llm_env \<Rightarrow> pylib \<Rightarrow> string \<Rightarrow> string \<Rightarrow> string \<Rightarrow> string" where
  "llm_or_fallback E L system_prompt user_prompt fallback =
     (case chat_completion E (OPENROUTER_MODEL E) system_prompt user_prompt of
        Inl exc \<Rightarrow> fallback
      | Inr choices \<Rightarrow>
          (case choices of
             [] \<Rightarrow> fallback
           | c # _ \<Rightarrow> (case c of None \<Rightarrow> fallback | Some content \<Rightarrow> str_strip L content)))"

section \<open>combine.py\<close>

record CombinedAnswerRequest =
  user_query :: string
  tool_outputs :: "pydict list"
  history_summary :: "string option"

record CombinedAnswerResponse =
  combined_answer :: string

text \<open>The loop of \<open>_fallback\<close>: one line appended per entry of \<open>tool_outputs\<close>.\<close>

fun fallback_lines :: "pylib \<Rightarrow> pydict list \<Rightarrow> string list \<Rightarrow> string list" where
  "fallback_lines L [] lines = lines"
| "fallback_lines L (entry # rest) lines =
     (let agent = dict_get entry ''agent'' PNone;
          status = dict_get entry ''status'' PNone;
          result = dict_get entry ''result'' PNone;
          error = dict_get entry ''error'' PNone
      in if status = PStr ''success''
         then fallback_lines L rest (lines @ [py_str L agent @ '': '' @ py_str L result])
         else fallback_lines L rest
                (lines @ [py_str L agent @ '': failed ('' @ py_str L error @ '')'']))"

definition combine_fallback :: "pylib \<Rightarrow> CombinedAnswerRequest \<Rightarrow> CombinedAnswerResponse" where
  "combine_fallback L req =
     (let lines = fallback_lines L (tool_outputs req) [];
          stitched = (if lines \<noteq> [] then str_join '' | '' lines
                      else ''No tool outputs available.'')
      in \<lparr>combined_answer = stitched\<rparr>)"

definition combine_system_prompt :: string where
  "combine_system_prompt =
     ''You are a response combiner. Given the user's query and multiple tool outputs, '' @
     ''produce a single concise answer that integrates the results. '' @
     ''If some tools failed, still use the successful outputs and briefly note the failure. '' @
     ''Be direct and avoid repetition.''"

definition combine_tool_outputs ::
  "llm_env \<Rightarrow> pylib \<Rightarrow> CombinedAnswerRequest \<Rightarrow> CombinedAnswerResponse" where
  "combine_tool_outputs E L req =
     (case api_key E of
        None \<Rightarrow> combine_fallback L req
      | Some key \<Rightarrow>
      if \<not> openai_available E \<or> key = [] then combine_fallback L req
      else (case client_init E key of
        Some exc \<Rightarrow> combine_fallback L req
      | None \<Rightarrow>
          (let user_payload =
                 [(''user_query'', PStr (user_query req)),
                  (''tool_outputs'', PList (map PDict (tool_outputs req)))]
                 @ (case history_summary req of
                      None \<Rightarrow> []
                    | Some h \<Rightarrow> if h \<noteq> [] then [(''history_summary'', PStr h)] else []);
               user_prompt = json_dumps L (PDict user_payload)
           in \<lparr>combined_answer =
                 llm_or_fallback E L combine_system_prompt user_prompt
                   (combined_answer (combine_fallback L req))\<rparr>)))"

text \<open>
  The rendering as the specification words it: each tool output, in input
  order, as \<open><agent>: <result>\<close> on success and \<open><agent>: failed (<error>)\<close>
  otherwise, joined by \<open>" | "\<close>; a fixed sentence when there is none.
\<close>

definition spec_render_output :: "pylib \<Rightarrow> pydict \<Rightarrow> string" where
  "spec_render_output L entry =
     (if map_of entry ''status'' = Some (PStr ''success'')
      then py_str L (dict_get entry ''agent'' PNone) @ '': ''
           @ py_str L (dict_get entry ''result'' PNone)
      else py_str L (dict_get entry ''agent'' PNone) @ '': failed (''
           @ py_str L (dict_get entry ''error'' PNone) @ '')'')"

section \<open>history.py\<close>

definition history_system_prompt :: string where
  "history_system_prompt =
     ''Summarize the conversation so far in 2-3 concise sentences. '' @
     ''Capture user goals, key details, and any decisions or constraints. '' @
     ''Do not invent new facts.''"

text \<open>\<open>history[-6:]\<close>.\<close>

definition last6 :: "'a list \<Rightarrow> 'a list" where
  "last6 xs = drop (length xs - 6) xs"

definition history_fallback :: "pylib \<Rightarrow> pydict list \<Rightarrow> string" where
  "history_fallback L history =
     (let parts = map (\<lambda>m. py_str L (dict_get m ''role'' PNone) @ '': ''
                            @ py_str L (dict_get m ''content'' (PStr ''''))) (last6 history);
          joined = str_join '' | '' parts
      in ''Conversation summary (fallback): '' @ take 500 joined)"

definition summarize_history :: "llm_env \<Rightarrow> pylib \<Rightarrow> pydict list \<Rightarrow> string" where
  "summarize_history E L history =
     (if history = [] then ''''
      else (case api_key E of
        None \<Rightarrow> history_fallback L history
      | Some key \<Rightarrow>
      if \<not> openai_available E \<or> key = [] then history_fallback L history
      else (case client_init E key of
        Some exc \<Rightarrow> history_fallback L history
      | None \<Rightarrow>
          (let user_prompt =
                 json_dumps L (PDict [(''history'', PList (map PDict (last6 history)))])
           in llm_or_fallback E L history_system_prompt user_prompt
                (history_fallback L history)))))"

text \<open>The specification's words: the last \<open>n\<close> turns, each as \<open>role: content\<close>.\<close>

definition spec_last_turns :: "nat \<Rightarrow> 'a list \<Rightarrow> 'a list" where
  "spec_last_turns n xs = rev (take n (rev xs))"

definition spec_render_turn :: "pylib \<Rightarrow> pydict \<Rightarrow> string" where
  "spec_render_turn L m =
     py_str L (dict_get m ''role'' PNone) @ '': '' @ py_str L (dict_get m ''content'' (PStr ''''))"

section \<open>Python operations used by agent\_caller.py\<close>

text \<open>Running a step that may raise, then the rest.\<close>

definition try_bind :: "exn + 'a \<Rightarrow> ('a \<Rightarrow> exn + 'b) \<Rightarrow> exn + 'b" where
  "try_bind m f = (case m of Inl exc \<Rightarrow> Inl exc | Inr v \<Rightarrow> f v)"

text \<open>\<open>len(v)\<close>: a number, a boolean and \<open>None\<close> have no length.\<close>

fun py_len :: "pyval \<Rightarrow> exn + nat" where
  "py_len (PStr s) = Inr (length s)"
| "py_len (PList xs) = Inr (length xs)"
| "py_len (PDict d) = Inr (length d)"
| "py_len v = Inl TypeError"

text \<open>\<open>v[0]\<close>: the first element of a list, the first character of a string;
  a dictionary with string keys has no key \<open>0\<close>.\<close>

fun py_first :: "pyval \<Rightarrow> exn + pyval" where
  "py_first (PList []) = Inl IndexError"
| "py_first (PList (x # xs)) = Inr x"
| "py_first (PStr []) = Inl IndexError"
| "py_first (PStr (c # cs)) = Inr (PStr [c])"
| "py_first (PDict d) = Inl KeyError"
| "py_first v = Inl TypeError"

fun is_PStr :: "pyval \<Rightarrow> bool" where
  "is_PStr (PStr s) = True"
| "is_PStr v = False"

fun the_PStr :: "pyval \<Rightarrow> string" where
  "the_PStr (PStr s) = s"
| "the_PStr v = []"

text \<open>\<open>sep.join(v)\<close> on a value: it iterates a list (whose items must all be
  strings), the characters of a string or the keys of a dictionary.\<close>

fun py_join :: "string \<Rightarrow> pyval \<Rightarrow> exn + string" where
  "py_join sep (PList xs) =
     (if list_all is_PStr xs then Inr (str_join sep (map the_PStr xs)) else Inl TypeError)"
| "py_join sep (PStr s) = Inr (str_join sep (map (\<lambda>c. [c]) s))"
| "py_join sep (PDict d) = Inr (str_join sep (map fst d))"
| "py_join sep v = Inl TypeError"

text \<open>The format specification \<open>.2f\<close>: numbers only (a boolean is an integer);
  an integer is converted to a float first, which the library may refuse.\<close>

fun format_fixed2 :: "pylib \<Rightarrow> pyval \<Rightarrow> exn + string" where
  "format_fixed2 L (PInt i) = fixed2_int L i"
| "format_fixed2 L (PBool b) = fixed2_int L (if b then 1 else 0)"
| "format_fixed2 L (PFloat f) = Inr (fixed2_float L f)"
| "format_fixed2 L (PStr s) = Inl ValueError"
| "format_fixed2 L v = Inl TypeError"

text \<open>The format specification \<open>.1%\<close>.\<close>

fun format_percent1 :: "pylib \<Rightarrow> pyval \<Rightarrow> exn + string" where
  "format_percent1 L (PInt i) = percent1_int L i"
| "format_percent1 L (PBool b) = percent1_int L (if b then 1 else 0)"
| "format_percent1 L (PFloat f) = Inr (percent1_float L f)"
| "format_percent1 L (PStr s) = Inl ValueError"
| "format_percent1 L v = Inl TypeError"

section \<open>The models that agent\_caller.py builds\<close>

text \<open>
  The fields are those the constructor calls of \<open>agent_caller.py\<close> and the
  tests pass; a field of class \<open>C\<close> carries the prefix of its class.
  \<open>OutputModel.result\<close> holds any value (a test stores a dictionary there).
\<close>

record AgentMetadata =
  meta_name :: string
  meta_type :: string
  meta_endpoint :: "string option"
  meta_timeout_ms :: int

record AgentRequest =
  req_request_id :: string
  req_agent_name :: string
  req_intent :: string
  req_input :: pydict
  req_context :: pydict

record OutputModel =
  out_result :: pyval
  out_details :: "string option"

record ErrorModel =
  err_type :: string
  err_message :: string

record AgentResponse =
  resp_request_id :: string
  resp_agent_name :: string
  resp_status :: string
  resp_output :: "OutputModel option"
  resp_error :: "ErrorModel option"

text \<open>\<open>handshake.dict()\<close>.\<close>

definition request_dict :: "AgentRequest \<Rightarrow> pyval" where
  "request_dict r =
     PDict [(''request_id'', PStr (req_request_id r)),
            (''agent_name'', PStr (req_agent_name r)),
            (''intent'', PStr (req_intent r)),
            (''input'', PDict (req_input r)),
            (''context'', PDict (req_context r))]"

text \<open>The two shapes of response that \<open>call_agent\<close> constructs itself.\<close>

definition error_response :: "string \<Rightarrow> string \<Rightarrow> string \<Rightarrow> string \<Rightarrow> AgentResponse" where
  "error_response rid nm ty msg =
     \<lparr>resp_request_id = rid, resp_agent_name = nm, resp_status = ''error'',
      resp_output = None,
      resp_error = Some \<lparr>err_type = ty, err_message = msg\<rparr>\<rparr>"

definition success_response ::
  "string \<Rightarrow> string \<Rightarrow> pyval \<Rightarrow> string option \<Rightarrow> AgentResponse" where
  "success_response rid nm res det =
     \<lparr>resp_request_id = rid, resp_agent_name = nm, resp_status = ''success'',
      resp_output = Some \<lparr>out_result = res, out_details = det\<rparr>,
      resp_error = None\<rparr>"

section \<open>The HTTP collaborator\<close>

text \<open>
  An HTTP reply as \<open>call_agent\<close> reads it: the status code and what
  \<open>resp.json()\<close> gives, a value or an exception.
\<close>

record http_response =
  status_code :: int
  json_body :: "exn + pyval"

text \<open>
  \<open>httpx_available\<close>: the import of \<open>httpx\<close> succeeded.
  \<open>client_post endpoint timeout_ms payload\<close>: opening the client with the
  timeout and POSTing the JSON payload, which raises or returns a reply.
  \<open>AgentResponse_init\<close>: \<open>AgentResponse(**body)\<close>, the validation of a decoded
  body by the model class, whose declaration is in \<open>app/models.py\<close>.
\<close>

record caller_env =
  httpx_available :: bool
  client_post :: "string \<Rightarrow> int \<Rightarrow> pyval \<Rightarrow> exn + http_response"
  AgentResponse_init :: "pydict \<Rightarrow> exn + AgentResponse"

section \<open>agent\_caller.py: formatting the replies of the progress agent\<close>

definition PROGRESS_AGENT_INTENT_MAP :: "(string \<times> string) list" where
  "PROGRESS_AGENT_INTENT_MAP =
     [(''progress.track'', ''accountability''),
      (''progress.accountability'', ''accountability''),
      (''goal.create'', ''freeform_message''),
      (''goal.update'', ''goal''),
      (''reflection.add'', ''freeform_message''),
      (''reflection.analyze'', ''analyze_reflections''),
      (''productivity.report'', ''generate_report''),
      (''productivity.insights'', ''get_insights''),
      (''productivity.freeform'', ''freeform_message'')]"

text \<open>The block "Performance Metrics" of \<open>format_accountability_response\<close>.\<close>

definition metrics_lines :: "pylib \<Rightarrow> pydict \<Rightarrow> exn + string list" where
  "metrics_lines L data =
     (case dict_get data ''performance_metrics'' (PDict []) of
        PDict metrics \<Rightarrow>
          if py_truthy (dict_get metrics ''message'' PNone)
          then Inr [''Performance: '' @ py_str L (dict_get metrics ''message'' PNone)]
          else try_bind (format_percent1 L (dict_get metrics ''completion_rate'' (PInt 0)))
                 (\<lambda>rate. Inr
                    [''Performance Metrics:'',
                     ''  - Total Goals: '' @ py_str L (dict_get metrics ''total_goals'' (PInt 0)),
                     ''  - Completed: '' @ py_str L (dict_get metrics ''completed_goals'' (PInt 0)),
                     ''  - In Progress: ''
                        @ py_str L (dict_get metrics ''in_progress_goals'' (PInt 0)),
                     ''  - Missed: '' @ py_str L (dict_get metrics ''missed_goals'' (PInt 0)),
                     ''  - Completion Rate: '' @ rate,
                     ''  - Productivity Trend: ''
                        @ py_str L (dict_get metrics ''productivity_trend'' (PStr ''N/A''))])
      | other \<Rightarrow> Inr [])"

text \<open>The loop over \<open>goal_risks.items()\<close>: \<open>risk_info\<close> must have \<open>.get\<close>, and the
  risk level \<open>.upper()\<close>.\<close>

fun goal_risk_lines :: "pylib \<Rightarrow> pydict \<Rightarrow> exn + string list" where
  "goal_risk_lines L [] = Inr []"
| "goal_risk_lines L ((goal_id, risk_info) # rest) =
     (case risk_info of
        PDict info \<Rightarrow>
          (case dict_get info ''risk'' (PStr ''unknown'') of
             PStr risk_level \<Rightarrow>
               try_bind (goal_risk_lines L rest)
                 (\<lambda>more. Inr
                    ((''  - Goal '' @ take 8 goal_id @ ''...: '' @ str_upper L risk_level
                      @ '' risk ('' @ py_str L (dict_get info ''days_to_deadline'' (PStr ''?''))
                      @ '' days to deadline, ETA: ''
                      @ py_str L (dict_get info ''eta'' (PStr ''N/A'')) @ '')'') # more))
           | other \<Rightarrow> Inl AttributeError)
      | other \<Rightarrow> Inl AttributeError)"

definition risks_lines :: "pylib \<Rightarrow> pydict \<Rightarrow> exn + string list" where
  "risks_lines L data =
     (let goal_risks = dict_get data ''goal_risks'' (PDict [])
      in if py_truthy goal_risks
         then (case goal_risks of
                 PDict risks \<Rightarrow>
                   try_bind (goal_risk_lines L risks) (\<lambda>ls. Inr (''Goal Risks:'' # ls))
               | other \<Rightarrow> Inl AttributeError)
         else Inr [''Goal Risks: None''])"

definition reflection_lines :: "pylib \<Rightarrow> pydict \<Rightarrow> string list" where
  "reflection_lines L data =
     (case dict_get data ''reflection_summary'' (PDict []) of
        PDict reflection \<Rightarrow>
          if py_truthy (dict_get reflection ''message'' PNone)
          then [''Reflections: '' @ py_str L (dict_get reflection ''message'' PNone)]
          else [''Reflection Summary: Available'']
      | other \<Rightarrow> [])"

definition format_accountability_response :: "pylib \<Rightarrow> pydict \<Rightarrow> exn + string" where
  "format_accountability_response L data =
     (let generated_at = dict_get data ''generated_at'' (PStr '''');
          header = (if py_truthy generated_at
                    then [''Accountability Report (Generated: '' @ py_str L generated_at @ '')'',
                          replicate 50 (CHR ''-'')]
                    else []);
          user_id = dict_get data ''user_id'' (PStr ''anonymous'')
      in try_bind (metrics_lines L data) (\<lambda>metrics.
         try_bind (risks_lines L data) (\<lambda>risks.
           Inr (str_join [CHR 0x0A]
                  (header @ [''User: '' @ py_str L user_id, '''']
                   @ metrics @ [''''] @ risks @ [''''] @ reflection_lines L data)))))"

definition format_goal_created_response :: "pylib \<Rightarrow> pydict \<Rightarrow> exn + string" where
  "format_goal_created_response L data =
     (let goal_id = dict_get data ''goal_id'' (PStr ''unknown'');
          head_lines = [''Goal Created Successfully!'', replicate 30 (CHR ''-''),
                        ''Goal ID: '' @ py_str L goal_id];
          used_data = dict_get data ''used_data'' (PDict [])
      in if py_truthy used_data
         then (case used_data of
                 PDict used \<Rightarrow>
                   Inr (str_join [CHR 0x0A]
                     (head_lines @
                      [''Title: '' @ py_str L (dict_get used ''title'' (PStr ''N/A'')),
                       ''Category: '' @ py_str L (dict_get used ''category'' (PStr ''N/A'')),
                       ''Type: '' @ py_str L (dict_get used ''goal_type'' (PStr ''N/A'')),
                       ''Deadline: '' @ py_str L (dict_get used ''deadline'' (PStr ''N/A'')),
                       ''Priority: '' @ py_str L (dict_get used ''priority'' (PStr ''N/A''))]))
               | other \<Rightarrow> Inl AttributeError)
         else Inr (str_join [CHR 0x0A] head_lines))"

definition format_reflection_saved_response :: "pylib \<Rightarrow> pydict \<Rightarrow> string" where
  "format_reflection_saved_response L data =
     (let reflection_id = dict_get data ''reflection_id'' (PStr '''')
      in str_join [CHR 0x0A]
           ([''Reflection Saved Successfully!'', replicate 30 (CHR ''-'')]
            @ (if py_truthy reflection_id
               then [''Reflection ID: '' @ py_str L reflection_id] else [])))"

section \<open>agent\_caller.py: call\_agent\<close>

text \<open>
  Request construction, up to the \<open>AgentRequest\<close>. It runs before the
  \<open>try\<close>, so what raises here leaves \<open>call_agent\<close>. The f-string of the
  log line evaluates \<open>len(base64_data)\<close>.
\<close>

definition build_metadata :: "pydict \<Rightarrow> exn + pydict" where
  "build_metadata context =
     (let metadata = [(''language'', PStr ''en''), (''extra'', PDict [])];
          file_uploads = dict_get context ''file_uploads'' (PList [])
      in if \<not> py_truthy file_uploads then Inr metadata
         else try_bind (py_len file_uploads) (\<lambda>n.
           if \<not> n > 0 then Inr metadata
           else try_bind (py_first file_uploads) (\<lambda>first_file.
             case first_file of
               PDict file \<Rightarrow>
                 (let base64_data = dict_get file ''base64_data'' (PStr '''')
                  in if py_truthy base64_data
                     then try_bind (py_len base64_data) (\<lambda>chars.
                            Inr (metadata @
                              [(''file_base64'', base64_data),
                               (''mime_type'',
                                  dict_get file ''mime_type'' (PStr ''application/octet-stream'')),
                               (''filename'',
                                  dict_get file ''filename'' (PStr ''uploaded_file''))]))
                     else Inr metadata)
             | other \<Rightarrow> Inl AttributeError)))"

definition build_request ::
  "string \<Rightarrow> AgentMetadata \<Rightarrow> string \<Rightarrow> string \<Rightarrow> pydict \<Rightarrow> exn + AgentRequest" where
  "build_request request_id agent_meta intent text context =
     try_bind (build_metadata context) (\<lambda>metadata.
       Inr \<lparr>req_request_id = request_id,
            req_agent_name = meta_name agent_meta,
            req_intent = intent,
            req_input = [(''text'', PStr text), (''metadata'', PDict metadata)],
            req_context = context\<rparr>)"

text \<open>The payload for \<open>progress_accountability_agent\<close>.\<close>

definition progress_payload :: "string \<Rightarrow> string \<Rightarrow> pydict \<Rightarrow> pyval" where
  "progress_payload intent text context =
     (let user_id = dict_get context ''user_id'' (PStr ''anonymous'');
          task = (case map_of PROGRESS_AGENT_INTENT_MAP intent of
                    None \<Rightarrow> ''accountability'' | Some t \<Rightarrow> t);
          (task, params) =
            (if task = ''freeform_message'' then (task, [(''message'', PStr text)])
             else if task = ''goal'' then (''freeform_message'', [(''message'', PStr text)])
             else if intent = ''goal.update''
                     \<and> py_truthy (dict_get context ''goal_id'' PNone)
                     \<and> py_truthy (dict_get context ''progress'' PNone)
             then (task, [(''goal_id'', dict_get context ''goal_id'' PNone),
                          (''progress'', dict_get context ''progress'' PNone)])
             else (task, []))
      in PDict [(''user_id'', user_id), (''task'', PStr task), (''params'', PDict params)])"

definition request_payload :: "AgentMetadata \<Rightarrow> string \<Rightarrow> string \<Rightarrow> AgentRequest \<Rightarrow> pyval" where
  "request_payload agent_meta intent text handshake =
     (if meta_name agent_meta = ''budget_tracker_agent'' then PDict [(''query'', PStr text)]
      else if meta_name agent_meta = ''progress_accountability_agent''
      then progress_payload intent text (req_context handshake)
      else request_dict handshake)"

text \<open>The result text of the progress agent's reply with status \<open>ok\<close>.\<close>

definition progress_ok_text :: "pylib \<Rightarrow> pydict \<Rightarrow> exn + string" where
  "progress_ok_text L resp_data =
     (let payload_data =
            dict_get resp_data ''payload''
              (dict_get resp_data ''analysis''
                 (dict_get resp_data ''report'' (dict_get resp_data ''insights'' (PDict []))))
      in case payload_data of
           PDict p \<Rightarrow>
             if dict_has p ''generated_at'' then format_accountability_response L p
             else Inr (json_dumps L payload_data)
         | other \<Rightarrow> Inr (py_str L payload_data))"

definition progress_incomplete_text :: "pylib \<Rightarrow> pydict \<Rightarrow> exn + string" where
  "progress_incomplete_text L resp_data =
     (let missing = dict_get resp_data ''missing_fields''
                      (dict_get resp_data ''missing_parts'' (PList []));
          message = dict_get resp_data ''message'' (PStr ''Some information is missing.'')
      in try_bind (if py_truthy missing then py_join '', '' missing else Inr ''unknown'')
           (\<lambda>listed. Inr (py_str L message @ [CHR 0x0A] @ ''Missing: '' @ listed)))"

definition progress_other_result :: "pylib \<Rightarrow> pydict \<Rightarrow> exn + pyval" where
  "progress_other_result L resp_data =
     (if dict_has resp_data ''generated_at'' \<or> dict_has resp_data ''goal_risks''
         \<or> dict_has resp_data ''performance_metrics''
      then try_bind (format_accountability_response L resp_data) (\<lambda>t. Inr (PStr t))
      else if dict_has resp_data ''reply'' then Inr (dict_get resp_data ''reply'' (PStr ''''))
      else if dict_has resp_data ''message'' then Inr (dict_get resp_data ''message'' (PStr ''''))
      else Inr (PStr (json_dumps L (PDict resp_data))))"

text \<open>The body of the inner \<open>try\<close> for the progress agent: \<open>Inl\<close> is what its
  \<open>except\<close> catches.\<close>

definition progress_try ::
  "pylib \<Rightarrow> string \<Rightarrow> string \<Rightarrow> http_response \<Rightarrow> exn + AgentResponse" where
  "progress_try L request_id nm resp =
     try_bind (json_body resp) (\<lambda>body.
       case body of
         PDict resp_data \<Rightarrow>
           (let status = dict_get resp_data ''status'' (PStr '''');
                details = Some (json_dumps L body)
            in if status = PStr ''ok''
               then try_bind (progress_ok_text L resp_data)
                      (\<lambda>t. Inr (success_response request_id nm (PStr t) details))
               else if status = PStr ''created''
               then try_bind (format_goal_created_response L resp_data)
                      (\<lambda>t. Inr (success_response request_id nm (PStr t) details))
               else if status = PStr ''saved''
               then Inr (success_response request_id nm
                           (PStr (format_reflection_saved_response L resp_data)) details)
               else if status = PStr ''incomplete''
               then try_bind (progress_incomplete_text L resp_data)
                      (\<lambda>t. Inr (success_response request_id nm (PStr t) details))
               else if status = PStr ''error''
               then (let error_msg = dict_get resp_data ''message''
                                       (PStr ''Unknown error from progress_accountability_agent'')
                     in Inr (error_response request_id nm ''agent_error'' (py_str L error_msg)))
               else try_bind (progress_other_result L resp_data)
                      (\<lambda>r. Inr (success_response request_id nm r details)))
       | other \<Rightarrow> Inl AttributeError)"

text \<open>The text synthesised for the budget tracker when there is no \<open>response\<close>.\<close>

definition budget_parts :: "pylib \<Rightarrow> pydict \<Rightarrow> exn + string list" where
  "budget_parts L resp_data =
     try_bind (case map_of resp_data ''remaining'' of
                 None \<Rightarrow> Inr []
               | Some remaining \<Rightarrow>
                   try_bind (format_fixed2 L remaining) (\<lambda>s. Inr [''Remaining: $'' @ s]))
       (\<lambda>p1.
     let p2 = (case map_of resp_data ''project_name'' of
                 None \<Rightarrow> [] | Some project \<Rightarrow> [''Project: '' @ py_str L project]);
         p3 = (case map_of resp_data ''overshoot_risk'' of
                 None \<Rightarrow> [] | Some risk \<Rightarrow> [''Overshoot Risk: '' @ py_str L risk])
     in try_bind (case map_of resp_data ''recommendations'' of
                    None \<Rightarrow> Inr []
                  | Some recommendations \<Rightarrow>
                      if py_truthy recommendations
                      then try_bind (py_join '', '' recommendations)
                             (\<lambda>s. Inr [''Recommendations: '' @ s])
                      else Inr [])
       (\<lambda>p4. Inr (p1 @ p2 @ p3 @ p4)))"

definition budget_try ::
  "pylib \<Rightarrow> string \<Rightarrow> string \<Rightarrow> http_response \<Rightarrow> exn + AgentResponse" where
  "budget_try L request_id nm resp =
     try_bind (json_body resp) (\<lambda>body.
       case body of
         PDict resp_data \<Rightarrow>
           if py_truthy (dict_get resp_data ''success'' (PBool False))
           then (let result_text = dict_get resp_data ''response'' PNone
                 in try_bind
                      (if \<not> py_truthy result_text
                       then try_bind (budget_parts L resp_data) (\<lambda>parts.
                              Inr (PStr (if parts \<noteq> [] then str_join ''. '' parts
                                         else py_str L body)))
                       else Inr result_text)
                      (\<lambda>result_text.
                         Inr (success_response request_id nm result_text
                                (if py_truthy body then Some (json_dumps L body) else None))))
           else (let error_msg = dict_get resp_data ''error''
                                   (dict_get resp_data ''message''
                                      (PStr ''Unknown error from budget tracker agent''))
                 in Inr (error_response request_id nm ''agent_error'' (py_str L error_msg)))
       | other \<Rightarrow> Inl AttributeError)"

definition parse_error_response :: "pylib \<Rightarrow> string \<Rightarrow> string \<Rightarrow> exn \<Rightarrow> AgentResponse" where
  "parse_error_response L request_id nm parse_exc =
     error_response request_id nm ''parse_error''
       (''Failed to parse agent response: '' @ exc_str L parse_exc)"

text \<open>The body of the outer \<open>try\<close>: the POST and the normalisation of the reply.\<close>

definition http_try ::
  "caller_env \<Rightarrow> pylib \<Rightarrow> string \<Rightarrow> AgentMetadata \<Rightarrow> string \<Rightarrow> pyval
     \<Rightarrow> exn + AgentResponse" where
  "http_try E L request_id agent_meta endpoint payload =
     try_bind (client_post E endpoint (meta_timeout_ms agent_meta) payload) (\<lambda>resp.
       if status_code resp \<noteq> 200
       then Inr (error_response request_id (meta_name agent_meta) ''http_error''
                   (''HTTP '' @ str_of_int (status_code resp) @ '' calling '' @ endpoint))
       else if meta_name agent_meta = ''progress_accountability_agent''
       then (case progress_try L request_id (meta_name agent_meta) resp of
               Inl parse_exc \<Rightarrow>
                 Inr (parse_error_response L request_id (meta_name agent_meta) parse_exc)
             | Inr r \<Rightarrow> Inr r)
       else if meta_name agent_meta = ''budget_tracker_agent''
       then (case budget_try L request_id (meta_name agent_meta) resp of
               Inl parse_exc \<Rightarrow>
                 Inr (parse_error_response L request_id (meta_name agent_meta) parse_exc)
             | Inr r \<Rightarrow> Inr r)
       else try_bind (json_body resp) (\<lambda>body.
              case body of
                PDict kwargs \<Rightarrow> AgentResponse_init E kwargs
              | other \<Rightarrow> Inl TypeError))"

text \<open>The guard of the first branch: \<open>type == "http" and endpoint and httpx is not None\<close>.\<close>

definition dispatches :: "caller_env \<Rightarrow> AgentMetadata \<Rightarrow> bool" where
  "dispatches E agent_meta =
     (meta_type agent_meta = ''http''
      \<and> (case meta_endpoint agent_meta of None \<Rightarrow> False | Some ep \<Rightarrow> ep \<noteq> [])
      \<and> httpx_available E)"

text \<open>
  \<open>call_agent\<close> with its effect made explicit: the first component is the POST
  it hands to the HTTP client (endpoint, timeout in milliseconds, JSON
  payload), if any; the second is what the caller gets, \<open>Inl\<close> for an exception
  that leaves the function. \<open>request_id\<close> stands for the fresh UUID.
  \<open>custom_input\<close> is accepted and never read, as in the source.
\<close>

definition call_agent_io ::
  "caller_env \<Rightarrow> pylib \<Rightarrow> string \<Rightarrow> AgentMetadata \<Rightarrow> string \<Rightarrow> string \<Rightarrow> pydict
     \<Rightarrow> pydict option \<Rightarrow> (string \<times> int \<times> pyval) option \<times> (exn + AgentResponse)" where
  "call_agent_io E L request_id agent_meta intent text context custom_input =
     (case build_request request_id agent_meta intent text context of
        Inl exc \<Rightarrow> (None, Inl exc)
      | Inr handshake \<Rightarrow>
          if dispatches E agent_meta
          then (let endpoint = (case meta_endpoint agent_meta of None \<Rightarrow> [] | Some ep \<Rightarrow> ep);
                    payload = request_payload agent_meta intent text handshake
                in (Some (endpoint, meta_timeout_ms agent_meta, payload),
                    case http_try E L request_id agent_meta endpoint payload of
                      Inl exc \<Rightarrow>
                        Inr (error_response request_id (meta_name agent_meta)
                               ''network_error'' (exc_str L exc))
                    | Inr r \<Rightarrow> Inr r))
          else if meta_type agent_meta = ''http'' \<and> \<not> httpx_available E
          then (None, Inr (error_response request_id (meta_name agent_meta) ''config_error''
                             ''httpx not installed for HTTP agent calls''))
          else if meta_type agent_meta = ''cli''
          then (None, Inr (error_response request_id (meta_name agent_meta) ''not_implemented''
                             ''CLI agent execution is not implemented''))
          else (None, Inr (error_response request_id (meta_name agent_meta) ''config_error''
                             ''Agent endpoint/command not configured'')))"

definition call_agent ::
  "caller_env \<Rightarrow> pylib \<Rightarrow> string \<Rightarrow> AgentMetadata \<Rightarrow> string \<Rightarrow> string \<Rightarrow> pydict
     \<Rightarrow> pydict option \<Rightarrow> exn + AgentResponse" where
  "call_agent E L request_id agent_meta intent text context custom_input =
     snd (call_agent_io E L request_id agent_meta intent text context custom_input)"

definition call_agent_post ::
  "caller_env \<Rightarrow> pylib \<Rightarrow> string \<Rightarrow> AgentMetadata \<Rightarrow> string \<Rightarrow> string \<Rightarrow> pydict
     \<Rightarrow> pydict option \<Rightarrow> (string \<times> int \<times> pyval) option" where
  "call_agent_post E L request_id agent_meta intent text context custom_input =
     fst (call_agent_io E L request_id agent_meta intent text context custom_input)"

section \<open>Properties stated by the specification\<close>

text \<open>
  A well-formed context, after the data model: \<open>file_uploads\<close>, when present,
  is a list of upload records (or \<open>None\<close>), and the \<open>base64_data\<close> of an
  upload, when present, is a string.
\<close>

fun wf_upload :: "pyval \<Rightarrow> bool" where
  "wf_upload (PDict file) =
     (case map_of file ''base64_data'' of None \<Rightarrow> True | Some v \<Rightarrow> is_PStr v)"
| "wf_upload v = False"

fun wf_file_uploads :: "pyval \<Rightarrow> bool" where
  "wf_file_uploads PNone = True"
| "wf_file_uploads (PList uploads) = list_all wf_upload uploads"
| "wf_file_uploads v = False"

definition wf_context :: "pydict \<Rightarrow> bool" where
  "wf_context context =
     (case map_of context ''file_uploads'' of None \<Rightarrow> True | Some v \<Rightarrow> wf_file_uploads v)"

text \<open>The envelope invariant: exactly one of \<open>output\<close> and \<open>error\<close> is populated,
  and \<open>error\<close> is present iff the status is \<open>error\<close>.\<close>

definition envelope_inv :: "AgentResponse \<Rightarrow> bool" where
  "envelope_inv r =
     (((resp_output r \<noteq> None) \<noteq> (resp_error r \<noteq> None))
      \<and> ((resp_error r \<noteq> None) = (resp_status r = ''error'')))"

text \<open>The response was constructed by \<open>call_agent\<close> itself, not decoded.\<close>

definition built_by_caller :: "string \<Rightarrow> string \<Rightarrow> AgentResponse \<Rightarrow> bool" where
  "built_by_caller rid nm r =
     ((\<exists>res det. r = success_response rid nm res det)
      \<or> (\<exists>ty msg. r = error_response rid nm ty msg))"

text \<open>The taxonomy of \<open>ErrorModel.type\<close>, and an error response of one of its
  types.\<close>

definition error_types :: "string list" where
  "error_types =
     [''http_error'', ''network_error'', ''config_error'', ''not_implemented'',
      ''parse_error'', ''agent_error'']"






text \<open>The reply of any agent but the two with an adapter was decoded into \<open>r\<close>.\<close>

definition decoded_directly ::
  "caller_env \<Rightarrow> AgentMetadata \<Rightarrow> pyval \<Rightarrow> AgentResponse \<Rightarrow> bool" where
  "decoded_directly E agent_meta payload r =
     (meta_name agent_meta \<noteq> ''budget_tracker_agent''
      \<and> meta_name agent_meta \<noteq> ''progress_accountability_agent''
      \<and> (\<exists>ep resp kwargs.
            meta_endpoint agent_meta = Some ep
            \<and> client_post E ep (meta_timeout_ms agent_meta) payload = Inr resp
            \<and> status_code resp = 200
            \<and> json_body resp = Inr (PDict kwargs)
            \<and> AgentResponse_init E kwargs = Inr r))"

text \<open>The field \<open>k\<close> of a JSON object, if the value is one and has it.\<close>

fun field :: "string \<Rightarrow> pyval \<Rightarrow> pyval option" where
  "field k (PDict d) = map_of d k"
| "field k v = None"

text \<open>The \<open>task\<close> that the specification's table gives an intent.\<close>

definition spec_task :: "string \<Rightarrow> string" where
  "spec_task intent =
     (case map_of PROGRESS_AGENT_INTENT_MAP intent of
        None \<Rightarrow> ''accountability'' | Some t \<Rightarrow> t)"



subsection \<open>The model classes, for the replies decoded directly\<close>

text \<open>
  Modelled from the spec: the validation \<open>AgentResponse(**body)\<close>, whose class
  declarations (\<open>app/models.py\<close>) are not among the sources. The specification
  gives \<open>AgentResponse\<close> the fields \<open>request_id\<close>, \<open>agent_name\<close>, \<open>status\<close> (one of
  \<open>success\<close>, \<open>error\<close>), an optional \<open>output\<close> of \<open>result\<close> and \<open>details\<close> and an
  optional \<open>error\<close> of \<open>type\<close> and \<open>message\<close>, present iff the status is
  \<open>error\<close>, with the invariant that exactly one of \<open>output\<close> and \<open>error\<close> is
  populated. A body that does not have this shape is refused.
\<close>

definition spec_decode_output :: "pyval \<Rightarrow> exn + OutputModel option" where
  "spec_decode_output v =
     (case v of
        PNone \<Rightarrow> Inr None
      | PDict d \<Rightarrow>
          (case map_of d ''result'' of
             None \<Rightarrow> Inl (External ''ValidationError'')
           | Some res \<Rightarrow>
               (case dict_get d ''details'' PNone of
                  PNone \<Rightarrow> Inr (Some \<lparr>out_result = res, out_details = None\<rparr>)
                | PStr s \<Rightarrow> Inr (Some \<lparr>out_result = res, out_details = Some s\<rparr>)
                | other \<Rightarrow> Inl (External ''ValidationError'')))
      | other \<Rightarrow> Inl (External ''ValidationError''))"

definition spec_decode_error :: "pyval \<Rightarrow> exn + ErrorModel option" where
  "spec_decode_error v =
     (case v of
        PNone \<Rightarrow> Inr None
      | PDict d \<Rightarrow>
          (case (map_of d ''type'', map_of d ''message'') of
             (Some (PStr ty), Some (PStr msg)) \<Rightarrow>
               Inr (Some \<lparr>err_type = ty, err_message = msg\<rparr>)
           | other \<Rightarrow> Inl (External ''ValidationError''))
      | other \<Rightarrow> Inl (External ''ValidationError''))"

definition spec_AgentResponse_init :: "pydict \<Rightarrow> exn + AgentResponse" where
  "spec_AgentResponse_init kwargs =
     (case (map_of kwargs ''request_id'', map_of kwargs ''agent_name'',
            map_of kwargs ''status'') of
        (Some (PStr rid), Some (PStr nm), Some (PStr st)) \<Rightarrow>
          if st = ''success'' \<or> st = ''error''
          then try_bind (spec_decode_output (dict_get kwargs ''output'' PNone)) (\<lambda>out.
               try_bind (spec_decode_error (dict_get kwargs ''error'' PNone)) (\<lambda>err.
                 if ((out \<noteq> None) \<noteq> (err \<noteq> None)) \<and> ((err \<noteq> None) = (st = ''error''))
                 then Inr \<lparr>resp_request_id = rid, resp_agent_name = nm, resp_status = st,
                           resp_output = out, resp_error = err\<rparr>
                 else Inl (External ''ValidationError'')))
          else Inl (External ''ValidationError'')
      | other \<Rightarrow> Inl (External ''ValidationError''))"

subsection \<open>Concrete collaborators for the examples\<close>

definition plain_lib :: pylib where
  "plain_lib =
     \<lparr>repr_float = (\<lambda>f. ''0.0''),
      repr_items = (\<lambda>d. ''...''),
      repr_elems = (\<lambda>xs. ''...''),
      fixed2_float = (\<lambda>f. ''0.00''),
      fixed2_int = (\<lambda>i. Inr (str_of_int i @ ''.00'')),
      percent1_float = (\<lambda>f. ''0.0%''),
      percent1_int = (\<lambda>i. Inr (str_of_int (100 * i) @ ''.0%'')),
      json_dumps = (\<lambda>v. ''{...}''),
      exc_str = (\<lambda>exc. case exc of External msg \<Rightarrow> msg | other \<Rightarrow> ''error''),
      str_strip = (\<lambda>s. s),
      str_upper = (\<lambda>s. s)\<rparr>"

text \<open>No model configured: the client library is missing and there is no key.\<close>

definition no_llm :: llm_env where
  "no_llm =
     \<lparr>openai_available = False, api_key = None, model_env = None,
      client_init = (\<lambda>key. None), chat_completion = (\<lambda>model sys usr. Inr [])\<rparr>"

text \<open>An agent that cannot be reached: every POST raises.\<close>

definition unreachable_env :: caller_env where
  "unreachable_env =
     \<lparr>httpx_available = True,
      client_post = (\<lambda>endpoint timeout payload. Inl (External ''All connection attempts failed'')),
      AgentResponse_init = spec_AgentResponse_init\<rparr>"

text \<open>An agent that answers every POST with the given status code and JSON body.\<close>

definition reply_env :: "int \<Rightarrow> pyval \<Rightarrow> caller_env" where
  "reply_env code body =
     \<lparr>httpx_available = True,
      client_post = (\<lambda>endpoint timeout payload. Inr \<lparr>status_code = code, json_body = Inr body\<rparr>),
      AgentResponse_init = spec_AgentResponse_init\<rparr>"

definition http_agent :: "string \<Rightarrow> AgentMetadata" where
  "http_agent nm =
     \<lparr>meta_name = nm, meta_type = ''http'',
      meta_endpoint = Some ''http://agent.local/run'', meta_timeout_ms = 30000\<rparr>"

section \<open>Auxiliary facts\<close>

lemma try_bind_Inr: "try_bind m f = Inr r \<longleftrightarrow> (\<exists>v. m = Inr v \<and> f v = Inr r)"
  by (cases m) (simp_all add: try_bind_def)

lemma try_bind_simps [simp]: "try_bind (Inl e) f = Inl e" "try_bind (Inr v) f = f v"
  by (simp_all add: try_bind_def)

lemma fallback_lines_map:
  "fallback_lines L outs acc = acc @ map (spec_render_output L) outs"
  by (induction outs arbitrary: acc)
     (simp_all add: spec_render_output_def dict_get_def Let_def split: option.splits)

lemma combine_unconfigured:
  "llm_unconfigured E \<Longrightarrow> combine_tool_outputs E L req = combine_fallback L req"
  by (auto simp: llm_unconfigured_def combine_tool_outputs_def split: option.splits)

lemma spec_last_turns_eq: "spec_last_turns 6 xs = last6 xs"
  by (simp add: spec_last_turns_def last6_def rev_take)

lemma no_llm_unconfigured: "llm_unconfigured no_llm"
  by (simp add: llm_unconfigured_def no_llm_def)

lemma build_metadata_wf:
  assumes "wf_context context"
  shows "\<exists>md. build_metadata context = Inr md"
proof (cases "map_of context ''file_uploads''")
  case None
  then show ?thesis by (simp add: build_metadata_def dict_get_def)
next
  case (Some v)
  with assms have wf: "wf_file_uploads v" by (simp add: wf_context_def)
  show ?thesis
  proof (cases v)
    case (PList uploads)
    show ?thesis
    proof (cases uploads)
      case Nil
      with PList Some show ?thesis by (simp add: build_metadata_def dict_get_def)
    next
      case (Cons u us)
      with wf PList obtain upl where u: "u = PDict upl" and
        b: "case map_of upl ''base64_data'' of None \<Rightarrow> True | Some v \<Rightarrow> is_PStr v"
        by (cases u) auto
      show ?thesis
      proof (cases "map_of upl ''base64_data''")
        case None
        with Some PList Cons u show ?thesis by (simp add: build_metadata_def dict_get_def)
      next
        case (Some b64)
        with b obtain s where "b64 = PStr s" by (cases b64) auto
        with Some \<open>map_of context ''file_uploads'' = Some v\<close> PList Cons u show ?thesis
          by (simp add: build_metadata_def dict_get_def Let_def)
      qed
    qed
  qed (use wf Some in \<open>simp_all add: build_metadata_def dict_get_def\<close>)
qed

lemma error_response_inv: "envelope_inv (error_response rid nm ty msg)"
  by (simp add: envelope_inv_def error_response_def)

lemma success_response_inv: "envelope_inv (success_response rid nm res det)"
  by (simp add: envelope_inv_def success_response_def)

lemma built_by_caller_inv: "built_by_caller rid nm r \<Longrightarrow> envelope_inv r"
  by (auto simp: built_by_caller_def error_response_inv success_response_inv)

lemma built_success [simp]: "built_by_caller rid nm (success_response rid nm res det)"
  by (auto simp: built_by_caller_def)

lemma built_error [simp]: "built_by_caller rid nm (error_response rid nm ty msg)"
  by (auto simp: built_by_caller_def)

lemma progress_try_built:
  assumes "progress_try L rid nm resp = Inr r"
  shows "built_by_caller rid nm r"
proof -
  from assms obtain body where b: "json_body resp = Inr body"
    by (auto simp: progress_try_def try_bind_Inr)
  show ?thesis
  proof (cases body)
    case (PDict resp_data)
    with assms b show ?thesis
      by (auto simp: progress_try_def try_bind_Inr Let_def split: if_splits)
  qed (use assms b in \<open>simp_all add: progress_try_def\<close>)
qed

lemma budget_try_built:
  assumes "budget_try L rid nm resp = Inr r"
  shows "built_by_caller rid nm r"
proof -
  from assms obtain body where b: "json_body resp = Inr body"
    by (auto simp: budget_try_def try_bind_Inr)
  show ?thesis
  proof (cases body)
    case (PDict resp_data)
    with assms b show ?thesis
      by (auto simp: budget_try_def try_bind_Inr Let_def split: if_splits)
  qed (use assms b in \<open>simp_all add: budget_try_def\<close>)
qed

lemma http_try_shape:
  assumes "http_try E L rid m ep payload = Inr r"
  shows "built_by_caller rid (meta_name m) r
         \<or> (meta_name m \<noteq> ''budget_tracker_agent''
            \<and> meta_name m \<noteq> ''progress_accountability_agent''
            \<and> (\<exists>resp kwargs.
                  client_post E ep (meta_timeout_ms m) payload = Inr resp
                  \<and> status_code resp = 200
                  \<and> json_body resp = Inr (PDict kwargs)
                  \<and> AgentResponse_init E kwargs = Inr r))"
proof -
  from assms obtain resp where p: "client_post E ep (meta_timeout_ms m) payload = Inr resp"
    by (auto simp: http_try_def try_bind_Inr)
  consider (bad) "status_code resp \<noteq> 200"
    | (progress) "status_code resp = 200" "meta_name m = ''progress_accountability_agent''"
    | (budget) "status_code resp = 200" "meta_name m \<noteq> ''progress_accountability_agent''"
        "meta_name m = ''budget_tracker_agent''"
    | (other) "status_code resp = 200" "meta_name m \<noteq> ''progress_accountability_agent''"
        "meta_name m \<noteq> ''budget_tracker_agent''"
    by blast
  then show ?thesis
  proof cases
    case bad
    with assms p show ?thesis by (auto simp: http_try_def)
  next
    case progress
    with assms p show ?thesis
      by (auto simp: http_try_def parse_error_response_def split: sum.splits
               dest: progress_try_built)
  next
    case budget
    with assms p show ?thesis
      by (auto simp: http_try_def parse_error_response_def split: sum.splits
               dest: budget_try_built)
  next
    case other
    with assms p obtain body where b: "json_body resp = Inr body"
      by (auto simp: http_try_def try_bind_Inr)
    with assms p other show ?thesis
      by (cases body) (auto simp: http_try_def)
  qed
qed

lemma build_request_Inr:
  "build_metadata context = Inr md \<Longrightarrow>
   build_request rid m intent text context =
     Inr \<lparr>req_request_id = rid, req_agent_name = meta_name m, req_intent = intent,
          req_input = [(''text'', PStr text), (''metadata'', PDict md)],
          req_context = context\<rparr>"
  by (simp add: build_request_def)

lemma call_agent_not_dispatched:
  assumes "build_metadata context = Inr md" "\<not> dispatches E m"
  shows "call_agent E L rid m intent text context ci =
     Inr (error_response rid (meta_name m)
            (if meta_type m = ''http'' \<and> \<not> httpx_available E then ''config_error''
             else if meta_type m = ''cli'' then ''not_implemented'' else ''config_error'')
            (if meta_type m = ''http'' \<and> \<not> httpx_available E
             then ''httpx not installed for HTTP agent calls''
             else if meta_type m = ''cli'' then ''CLI agent execution is not implemented''
             else ''Agent endpoint/command not configured''))"
    and "call_agent_post E L rid m intent text context ci = None"
  using assms
  by (simp_all add: call_agent_def call_agent_post_def call_agent_io_def build_request_Inr)

lemma call_agent_dispatched:
  assumes "build_metadata context = Inr md" "dispatches E m"
  shows "\<exists>ep payload. meta_endpoint m = Some ep \<and> ep \<noteq> [] \<and>
     payload = request_payload m intent text
        \<lparr>req_request_id = rid, req_agent_name = meta_name m, req_intent = intent,
          req_input = [(''text'', PStr text), (''metadata'', PDict md)],
          req_context = context\<rparr> \<and>
     call_agent_post E L rid m intent text context ci
       = Some (ep, meta_timeout_ms m, payload) \<and>
     call_agent E L rid m intent text context ci =
       (case http_try E L rid m ep payload of
          Inl exc \<Rightarrow> Inr (error_response rid (meta_name m) ''network_error'' (exc_str L exc))
        | Inr r \<Rightarrow> Inr r)"
proof -
  from assms(2) obtain ep where "meta_endpoint m = Some ep" "ep \<noteq> []"
    by (auto simp: dispatches_def split: option.splits)
  with assms show ?thesis
    by (simp add: call_agent_def call_agent_post_def call_agent_io_def build_request_Inr Let_def)
qed

section \<open>The combiner and the history summariser without a language model\<close>

text \<open>
  C7. When the LLM is unconfigured (no client library or no API key),
  \<open>combine_tool_outputs\<close> renders each tool output, in input order, as
  \<open><agent>: <result>\<close> when its status is \<open>success\<close> and as
  \<open><agent>: failed (<error>)\<close> otherwise, joined by \<open>" | "\<close>; with no tool
  output at all it returns the fixed sentence.
\<close>

theorem combine_fallback_rendering:
  "llm_unconfigured E \<Longrightarrow>
   combined_answer (combine_tool_outputs E L req) =
     (if tool_outputs req = [] then ''No tool outputs available.''
      else str_join '' | '' (map (spec_render_output L) (tool_outputs req)))"
  by (simp add: combine_unconfigured combine_fallback_def fallback_lines_map Let_def)

theorem combine_fallback_rendering_witness:
  "llm_unconfigured no_llm \<and>
   combined_answer (combine_tool_outputs no_llm plain_lib
     \<lparr>user_query = ''where do we stand?'',
      tool_outputs =
        [ [(''agent'', PStr ''budget_tracker_agent''), (''status'', PStr ''success''),
          (''result'', PStr ''Remaining: $12.00'')],
         [(''agent'', PStr ''deadline_guardian_agent''), (''status'', PStr ''error''),
          (''error'', PStr ''HTTP 503'')]],
      history_summary = None\<rparr>)
   = ''budget_tracker_agent: Remaining: $12.00 | deadline_guardian_agent: failed (HTTP 503)''"
  using combine_fallback_rendering [OF no_llm_unconfigured, of plain_lib
     "\<lparr>user_query = ''where do we stand?'',
      tool_outputs =
        [ [(''agent'', PStr ''budget_tracker_agent''), (''status'', PStr ''success''),
          (''result'', PStr ''Remaining: $12.00'')],
         [(''agent'', PStr ''deadline_guardian_agent''), (''status'', PStr ''error''),
          (''error'', PStr ''HTTP 503'')]],
      history_summary = None\<rparr>"]
  by (simp add: no_llm_unconfigured spec_render_output_def dict_get_def)

text \<open>
  C10. When the LLM path is unavailable, the combined answer depends on the
  request's \<open>tool_outputs\<close> only: two requests with the same tool outputs get
  the same answer, whatever their \<open>user_query\<close> and \<open>history_summary\<close>.
\<close>

theorem combine_fallback_ignores_query:
  assumes "llm_unconfigured E" and "tool_outputs r1 = tool_outputs r2"
  shows "combine_tool_outputs E L r1 = combine_tool_outputs E L r2"
  using assms by (simp add: combine_unconfigured combine_fallback_def)

theorem combine_fallback_ignores_query_witness:
  "combine_tool_outputs no_llm plain_lib
     \<lparr>user_query = ''budget?'', tool_outputs = [ [(''agent'', PStr ''a'')]],
      history_summary = Some ''earlier talk''\<rparr>
   = combine_tool_outputs no_llm plain_lib
     \<lparr>user_query = ''something else'', tool_outputs = [ [(''agent'', PStr ''a'')]],
      history_summary = None\<rparr>"
  by (rule combine_fallback_ignores_query [OF no_llm_unconfigured]) simp

text \<open>
  C8. \<open>summarize_history\<close> of the empty history is the empty string. For a
  non-empty history with no LLM configured it is the prefix
  \<open>Conversation summary (fallback): \<close> followed by the first 500 characters
  of the last 6 turns, each rendered as \<open>role: content\<close>, joined by \<open>" | "\<close>;
  so its length is at most 500 plus the length of the prefix.
\<close>

theorem summarize_history_fallback:
  "summarize_history E L [] = '''' \<and>
   (history \<noteq> [] \<longrightarrow> llm_unconfigured E \<longrightarrow>
      summarize_history E L history =
        ''Conversation summary (fallback): '' @
        take 500 (str_join '' | '' (map (spec_render_turn L) (spec_last_turns 6 history))) \<and>
      length (summarize_history E L history)
        \<le> 500 + length ''Conversation summary (fallback): '')"
  by (auto simp: summarize_history_def llm_unconfigured_def history_fallback_def
        spec_last_turns_eq spec_render_turn_def[abs_def] split: option.splits)

theorem summarize_history_fallback_witness:
  "summarize_history no_llm plain_lib
     [ [(''role'', PStr ''user''), (''content'', PStr ''hi'')],
      [(''role'', PStr ''assistant''), (''content'', PStr ''hello'')]]
   = ''Conversation summary (fallback): user: hi | assistant: hello''"
  using summarize_history_fallback [of no_llm plain_lib
     "[ [(''role'', PStr ''user''), (''content'', PStr ''hi'')],
       [(''role'', PStr ''assistant''), (''content'', PStr ''hello'')]]"]
  by (simp add: no_llm_unconfigured spec_render_turn_def spec_last_turns_def dict_get_def)

lemma error_response_sel [simp]:
  "resp_status (error_response rid nm ty msg) = ''error''"
  "resp_error (error_response rid nm ty msg) = Some \<lparr>err_type = ty, err_message = msg\<rparr>"
  "resp_output (error_response rid nm ty msg) = None"
  by (simp_all add: error_response_def)

lemma wf_context_no_uploads: "wf_context [(''user_id'', PStr ''u1'')]"
  by (simp add: wf_context_def)

lemmas call_agent_eval =
  call_agent_def call_agent_post_def call_agent_io_def build_request_def build_metadata_def
  dict_get_def dispatches_def http_agent_def request_payload_def request_dict_def
  http_try_def Let_def


lemma call_agent_raises_on_malformed_uploads:
  "call_agent E L rid m intent text [(''file_uploads'', PList [PStr ''notes.txt''])] ci
     = Inl AttributeError"
  by (simp add: call_agent_def call_agent_io_def build_request_def build_metadata_def
        dict_get_def)









lemma error_types_mem [simp]:
  "''http_error'' \<in> set error_types" "''network_error'' \<in> set error_types"
  "''config_error'' \<in> set error_types" "''not_implemented'' \<in> set error_types"
  "''parse_error'' \<in> set error_types" "''agent_error'' \<in> set error_types"
  by (simp_all add: error_types_def)









section \<open>call\_agent: failures become error responses\<close>





section \<open>call\_agent: the response envelope\<close>

lemma spec_AgentResponse_init_inv:
  assumes "spec_AgentResponse_init kwargs = Inr r"
  shows "envelope_inv r"
proof -
  from assms obtain rid nm st out err where
    r: "r = \<lparr>resp_request_id = rid, resp_agent_name = nm, resp_status = st,
              resp_output = out, resp_error = err\<rparr>" and
    ok: "((out \<noteq> None) \<noteq> (err \<noteq> None)) \<and> ((err \<noteq> None) = (st = ''error''))"
    unfolding spec_AgentResponse_init_def
    by (auto simp: try_bind_Inr split: option.splits pyval.splits if_splits)
  then show ?thesis by (cases out; cases err) (auto simp: envelope_inv_def)
qed

lemma call_agent_built_or_decoded:
  assumes "call_agent E L rid m intent text context ci = Inr r"
  shows "built_by_caller rid (meta_name m) r
       \<or> (\<exists>ep tmo payload.
             call_agent_post E L rid m intent text context ci = Some (ep, tmo, payload)
             \<and> decoded_directly E m payload r)"
proof -
  from assms obtain md where md: "build_metadata context = Inr md"
    by (cases "build_metadata context")
       (auto simp: call_agent_def call_agent_io_def build_request_def)
  show ?thesis
  proof (cases "dispatches E m")
    case False
    with md assms show ?thesis
      by (auto simp: call_agent_not_dispatched)
  next
    case True
    from call_agent_dispatched [OF md True]
    obtain ep payload where
      ep: "meta_endpoint m = Some ep" and
      post: "call_agent_post E L rid m intent text context ci
               = Some (ep, meta_timeout_ms m, payload)" and
      res: "call_agent E L rid m intent text context ci =
              (case http_try E L rid m ep payload of
                 Inl exc \<Rightarrow> Inr (error_response rid (meta_name m) ''network_error'' (exc_str L exc))
               | Inr r \<Rightarrow> Inr r)"
      by blast
    show ?thesis
    proof (cases "http_try E L rid m ep payload")
      case (Inl exc)
      with res assms show ?thesis by auto
    next
      case (Inr r')
      with res assms have "r' = r" by simp
      with http_try_shape [OF Inr] ep post show ?thesis
        by (auto simp: decoded_directly_def)
    qed
  qed
qed

text \<open>
  C4. Every \<open>AgentResponse\<close> that \<open>call_agent\<close> returns satisfies the envelope
  invariant: exactly one of \<open>output\<close> and \<open>error\<close> is populated, and \<open>error\<close> is
  present iff the status is \<open>error\<close>. This includes the agents other than the
  budget tracker and the progress agent, whose HTTP 200 body is decoded
  directly into an \<open>AgentResponse\<close>: there the envelope is the one the model
  class admits, as the specification describes that class.
\<close>

theorem call_agent_envelope:
  assumes "call_agent E L rid m intent text context ci = Inr r"
      and "AgentResponse_init E = spec_AgentResponse_init"
  shows "envelope_inv r"
  using call_agent_built_or_decoded [OF assms(1)] assms(2)
  by (auto simp: decoded_directly_def dest: built_by_caller_inv spec_AgentResponse_init_inv)

theorem call_agent_envelope_witness:
  "call_agent
     (reply_env 200
        (PDict [(''request_id'', PStr ''r-7''), (''agent_name'', PStr ''deadline_guardian_agent''),
                (''status'', PStr ''success''),
                (''output'', PDict [(''result'', PStr ''On track'')])]))
     plain_lib ''req-1'' (http_agent ''deadline_guardian_agent'')
     ''deadline.check'' ''Check deadline risk for Dec 15'' [] None
   = Inr \<lparr>resp_request_id = ''r-7'', resp_agent_name = ''deadline_guardian_agent'',
          resp_status = ''success'',
          resp_output = Some \<lparr>out_result = PStr ''On track'', out_details = None\<rparr>,
          resp_error = None\<rparr>
   \<and> envelope_inv
        \<lparr>resp_request_id = ''r-7'', resp_agent_name = ''deadline_guardian_agent'',
         resp_status = ''success'',
         resp_output = Some \<lparr>out_result = PStr ''On track'', out_details = None\<rparr>,
         resp_error = None\<rparr>"
proof -
  let ?E = "reply_env 200
        (PDict [(''request_id'', PStr ''r-7''), (''agent_name'', PStr ''deadline_guardian_agent''),
                (''status'', PStr ''success''),
                (''output'', PDict [(''result'', PStr ''On track'')])])"
  have call: "call_agent ?E plain_lib ''req-1'' (http_agent ''deadline_guardian_agent'')
     ''deadline.check'' ''Check deadline risk for Dec 15'' [] None
   = Inr \<lparr>resp_request_id = ''r-7'', resp_agent_name = ''deadline_guardian_agent'',
          resp_status = ''success'',
          resp_output = Some \<lparr>out_result = PStr ''On track'', out_details = None\<rparr>,
          resp_error = None\<rparr>"
    by (simp add: call_agent_eval reply_env_def spec_AgentResponse_init_def
          spec_decode_output_def spec_decode_error_def)
  have init: "AgentResponse_init ?E = spec_AgentResponse_init"
    by (simp add: reply_env_def)
  from call_agent_envelope [OF call init] call show ?thesis by simp
qed

section \<open>call\_agent: the payload for the progress agent\<close>

lemma intent_map_goal:
  "map_of PROGRESS_AGENT_INTENT_MAP intent = Some ''goal'' \<longleftrightarrow> intent = ''goal.update''"
  by (simp add: PROGRESS_AGENT_INTENT_MAP_def)

lemma intent_map_goal_update: "map_of PROGRESS_AGENT_INTENT_MAP ''goal.update'' = Some ''goal''"
  by (simp add: intent_map_goal)

lemma progress_payload_task_field:
  "field ''task'' (progress_payload intent text context) =
     Some (PStr (if spec_task intent = ''goal'' then ''freeform_message'' else spec_task intent))"
  by (simp add: progress_payload_def spec_task_def Let_def split: option.splits)

lemma goal_update_params:
  "field ''params'' (progress_payload ''goal.update'' text context)
     = Some (PDict [(''message'', PStr text)])"
  by (simp add: progress_payload_def intent_map_goal_update Let_def)

text \<open>
  C2, as the code has it. When \<open>call_agent\<close> POSTs to the progress agent, the
  \<open>task\<close> of the payload is the table's value for every intent of the table
  other than \<open>goal.update\<close>, and \<open>accountability\<close> for an intent that is not
  in the table. For \<open>goal.update\<close> the table's \<open>goal\<close> is replaced by
  \<open>freeform_message\<close> (stated here for a context without both a \<open>goal_id\<close>
  and a \<open>progress\<close>).
\<close>

theorem progress_payload_task:
  assumes "wf_context context" and "dispatches E m"
      and "meta_name m = ''progress_accountability_agent''"
  shows "\<exists>ep tmo payload.
           call_agent_post E L rid m intent text context ci = Some (ep, tmo, payload)
           \<and> (\<forall>t. map_of PROGRESS_AGENT_INTENT_MAP intent = Some t \<and> intent \<noteq> ''goal.update''
                 \<longrightarrow> field ''task'' payload = Some (PStr t))
           \<and> (map_of PROGRESS_AGENT_INTENT_MAP intent = None
                 \<longrightarrow> field ''task'' payload = Some (PStr ''accountability''))
           \<and> (intent = ''goal.update''
                 \<and> \<not> (py_truthy (dict_get context ''goal_id'' PNone)
                       \<and> py_truthy (dict_get context ''progress'' PNone))
                 \<longrightarrow> field ''task'' payload = Some (PStr ''freeform_message''))"
proof -
  from assms(1) obtain md where md: "build_metadata context = Inr md"
    using build_metadata_wf by blast
  from call_agent_dispatched [OF md assms(2), where intent = intent and ?text = "text"
         and rid = rid and L = L and ci = ci] assms(3)
  obtain ep where
    post: "call_agent_post E L rid m intent text context ci
             = Some (ep, meta_timeout_ms m, progress_payload intent text context)"
    by (auto simp: request_payload_def)
  have "field ''task'' (progress_payload intent text context) = Some (PStr t)"
    if "map_of PROGRESS_AGENT_INTENT_MAP intent = Some t" "intent \<noteq> ''goal.update''" for t
    using that intent_map_goal [of intent]
    by (auto simp: progress_payload_task_field spec_task_def)
  moreover have "field ''task'' (progress_payload intent text context)
                   = Some (PStr ''accountability'')"
    if "map_of PROGRESS_AGENT_INTENT_MAP intent = None"
    using that by (simp add: progress_payload_task_field spec_task_def)
  moreover have "field ''task'' (progress_payload intent text context)
                   = Some (PStr ''freeform_message'')"
    if "intent = ''goal.update''"
    using that by (simp add: progress_payload_task_field spec_task_def intent_map_goal_update)
  ultimately show ?thesis using post
    by (intro exI [of _ ep] exI [of _ "meta_timeout_ms m"]
          exI [of _ "progress_payload intent text context"]) simp
qed

theorem progress_payload_task_witness:
  "\<exists>ep tmo payload.
     call_agent_post unreachable_env plain_lib ''req-1''
       (http_agent ''progress_accountability_agent'')
       ''productivity.report'' ''How was my week?'' [(''user_id'', PStr ''u1'')] None
       = Some (ep, tmo, payload)
     \<and> field ''task'' payload = Some (PStr ''generate_report'')"
proof -
  have d: "dispatches unreachable_env (http_agent ''progress_accountability_agent'')"
    by (simp add: dispatches_def http_agent_def unreachable_env_def)
  have n: "meta_name (http_agent ''progress_accountability_agent'')
             = ''progress_accountability_agent''"
    by (simp add: http_agent_def)
  have t: "map_of PROGRESS_AGENT_INTENT_MAP ''productivity.report'' = Some ''generate_report''"
    by (simp add: PROGRESS_AGENT_INTENT_MAP_def)
  have ne: "''productivity.report'' \<noteq> ''goal.update''" by simp
  from progress_payload_task [OF wf_context_no_uploads d n,
      where L = plain_lib and rid = "''req-1''" and intent = "''productivity.report''"
        and ?text = "''How was my week?''" and ci = None] t ne
  show ?thesis by blast
qed

text \<open>
  C2 as stated fails at \<open>goal.update\<close>: the table maps it to \<open>goal\<close>, the
  payload carries \<open>freeform_message\<close>.
\<close>

theorem progress_payload_task_goal_update:
  "map_of PROGRESS_AGENT_INTENT_MAP ''goal.update'' = Some ''goal'' \<and>
   call_agent_post unreachable_env plain_lib ''req-1''
     (http_agent ''progress_accountability_agent'')
     ''goal.update'' ''Update my reading goal'' [] None
   = Some (''http://agent.local/run'', 30000,
       PDict [(''user_id'', PStr ''anonymous''), (''task'', PStr ''freeform_message''),
              (''params'', PDict [(''message'', PStr ''Update my reading goal'')])])"
  by (simp add: call_agent_eval unreachable_env_def progress_payload_def intent_map_goal_update)

text \<open>
  C3. With intent \<open>goal.update\<close> and a context holding \<open>goal_id\<close> and
  \<open>progress\<close>, the payload should carry both in \<open>params\<close>. The branch that
  would do so comes after the test \<open>task == "goal"\<close>, which \<open>goal.update\<close>
  always satisfies (\<open>goal_update_params\<close>): \<open>params\<close> holds the message only.
\<close>

theorem goal_update_direct_params_lost:
  "call_agent_post unreachable_env plain_lib ''req-1''
     (http_agent ''progress_accountability_agent'')
     ''goal.update'' ''Set my reading goal to 50 percent''
     [(''goal_id'', PStr ''g-42''), (''progress'', PInt 50)] None
   = Some (''http://agent.local/run'', 30000,
       PDict [(''user_id'', PStr ''anonymous''), (''task'', PStr ''freeform_message''),
              (''params'', PDict [(''message'', PStr ''Set my reading goal to 50 percent'')])])"
  by (simp add: call_agent_eval unreachable_env_def progress_payload_def intent_map_goal_update)

section \<open>call\_agent: forwarding an uploaded file\<close>

lemma build_metadata_first_upload:
  assumes "map_of context ''file_uploads'' = Some (PList (PDict upl # others))"
      and "dict_get upl ''base64_data'' (PStr []) = PStr b64"
  shows "build_metadata context =
     Inr ([(''language'', PStr ''en''), (''extra'', PDict [])]
          @ (if b64 = [] then []
             else [(''file_base64'', PStr b64),
                   (''mime_type'', dict_get upl ''mime_type'' (PStr ''application/octet-stream'')),
                   (''filename'', dict_get upl ''filename'' (PStr ''uploaded_file''))]))"
  using assms by (simp add: build_metadata_def Let_def dict_get_def)

text \<open>
  C9, as the code has it. When \<open>context.file_uploads\<close> is a non-empty list
  whose first upload has a non-empty string as \<open>base64_data\<close>, the metadata
  of the request carries that payload, the upload's MIME type (by default
  \<open>application/octet-stream\<close>) and its filename (by default
  \<open>uploaded_file\<close>); when the first upload's \<open>base64_data\<close> is empty or
  missing, nothing is attached. In both cases the request's input is the one
  built from the first upload alone: no other upload contributes.
\<close>

theorem first_upload_only:
  assumes "map_of context ''file_uploads'' = Some (PList (PDict upl # others))"
      and "dict_get upl ''base64_data'' (PStr []) = PStr b64"
  shows "(b64 \<noteq> [] \<longrightarrow>
            map_sum id req_input (build_request rid m intent text context) =
              Inr [(''text'', PStr text),
                   (''metadata'',
                    PDict [(''language'', PStr ''en''), (''extra'', PDict []),
                           (''file_base64'', PStr b64),
                           (''mime_type'',
                              dict_get upl ''mime_type'' (PStr ''application/octet-stream'')),
                           (''filename'', dict_get upl ''filename'' (PStr ''uploaded_file''))])])
       \<and> (b64 = [] \<longrightarrow>
            map_sum id req_input (build_request rid m intent text context) =
              Inr [(''text'', PStr text),
                   (''metadata'', PDict [(''language'', PStr ''en''), (''extra'', PDict [])])])
       \<and> (\<forall>context'. map_of context' ''file_uploads'' = Some (PList [PDict upl]) \<longrightarrow>
              map_sum id req_input (build_request rid m intent text context')
              = map_sum id req_input (build_request rid m intent text context))"
  using build_metadata_first_upload [OF assms]
        build_metadata_first_upload [OF _ assms(2), where others = "[]"]
  by (simp add: build_request_def)

theorem first_upload_only_witness:
  "map_sum id req_input
     (build_request ''req-1'' (http_agent ''document_summarizer_agent'') ''document.summarize''
        ''Please summarize this document''
        [(''file_uploads'',
          PList [PDict [(''base64_data'', PStr ''QUJD''), (''filename'', PStr ''a.txt'')],
                 PDict [(''base64_data'', PStr ''REVG''), (''filename'', PStr ''b.txt'')]])])
   = Inr [(''text'', PStr ''Please summarize this document''),
          (''metadata'',
           PDict [(''language'', PStr ''en''), (''extra'', PDict []),
                  (''file_base64'', PStr ''QUJD''),
                  (''mime_type'', PStr ''application/octet-stream''),
                  (''filename'', PStr ''a.txt'')])]"
proof -
  have a: "map_of [(''file_uploads'',
          PList [PDict [(''base64_data'', PStr ''QUJD''), (''filename'', PStr ''a.txt'')],
                 PDict [(''base64_data'', PStr ''REVG''), (''filename'', PStr ''b.txt'')]])]
        ''file_uploads''
      = Some (PList (PDict [(''base64_data'', PStr ''QUJD''), (''filename'', PStr ''a.txt'')]
               # [PDict [(''base64_data'', PStr ''REVG''), (''filename'', PStr ''b.txt'')]]))"
    by simp
  have b: "dict_get [(''base64_data'', PStr ''QUJD''), (''filename'', PStr ''a.txt'')]
             ''base64_data'' (PStr []) = PStr ''QUJD''"
    by (simp add: dict_get_def)
  from first_upload_only [OF a b, where rid = "''req-1''"
      and m = "http_agent ''document_summarizer_agent''" and intent = "''document.summarize''"
      and ?text = "''Please summarize this document''"]
  show ?thesis by (simp add: dict_get_def)
qed

text \<open>
  C9 as stated fails when the first upload has no payload: the list is not
  empty, and the metadata carries neither its MIME type nor its filename.
\<close>

theorem empty_first_upload_attaches_nothing:
  "map_sum id req_input
     (build_request ''req-1'' (http_agent ''document_summarizer_agent'') ''document.summarize''
        ''Please summarize this document''
        [(''file_uploads'',
          PList [PDict [(''base64_data'', PStr []), (''mime_type'', PStr ''application/pdf''),
                        (''filename'', PStr ''report.pdf'')]])])
   = Inr [(''text'', PStr ''Please summarize this document''),
          (''metadata'', PDict [(''language'', PStr ''en''), (''extra'', PDict [])])]"
  by (simp add: build_request_def build_metadata_def dict_get_def Let_def)

section \<open>call\_agent: the replies of the budget tracker\<close>















end
